theory Spec2Isabelle
  imports Complex_Main
begin

section \<open>Data model (src/types.ts)\<close>

text \<open>
  A JavaScript \<open>number\<close> that carries a Telegram identifier or a Unix time is an \<open>int\<close>;
  a \<open>number[]\<close> embedding is a list of reals (no arithmetic is ever done on its entries);
  an optional field (\<open>f?: T\<close>, \<open>T | null\<close>) is an \<open>option\<close>. The word \<open>text\<close> is reserved
  in theory files, so the three \<open>text\<close> fields carry a mark: \<open>tm_text\<close>, \<open>text'\<close>, \<open>er_text\<close>.
\<close>

type_synonym EmbeddingVector = "real list"

text \<open>\<open>interface TelegramMessage\<close>; \<open>tm_timestamp\<close> is the time value of the \<open>Date\<close> in
  milliseconds.\<close>

record TelegramMessage =
  messageId :: int
  tm_text :: string
  userId :: int
  groupId :: int
  tm_timestamp :: int
  userName :: "string option"
  userFirstName :: "string option"
  userLastName :: "string option"

text \<open>\<open>interface ConversationRecord\<close>; \<open>row_id\<close> is its field \<open>id\<close>.\<close>

record ConversationRecord =
  row_id :: "nat option"
  message_id :: int
  text' :: string
  user_id :: int
  group_id :: int
  timestamp :: string
  vector :: "EmbeddingVector option"
  user_name :: "string option"
  user_first_name :: "string option"
  user_last_name :: "string option"
  created_at :: "string option"

text \<open>\<open>interface OptOutUser\<close>, fields \<open>id\<close>, \<open>user_id\<close>, \<open>opted_out_at\<close>.\<close>

record OptOutUser =
  oo_id :: "nat option"
  oo_user_id :: int
  opted_out_at :: "string option"

text \<open>\<open>interface EmbeddingResult\<close>, fields \<open>text\<close>, \<open>embedding\<close>.\<close>

record EmbeddingResult =
  er_text :: string
  embedding :: "EmbeddingVector option"

section \<open>Values that cross the boundary of the program\<close>

text \<open>The error object of a store response (\<open>PostgrestError\<close>): the code reads \<open>code\<close> only.\<close>

record PostgrestError =
  code :: string
  message :: string

text \<open>The \<open>{ data, count, error }\<close> object a store request resolves to.\<close>

record 'a response =
  data :: "'a option"
  count :: "nat option"
  error :: "PostgrestError option"

text \<open>A thrown JavaScript value, with what the handlers read from it: \<open>code\<close>, \<open>status\<close>
  (a string or a number), \<open>message\<close>, and its \<open>String(...)\<close> form.\<close>

datatype js_prim = JStr string | JNum int

record thrown =
  thrown_code :: "js_prim option"
  thrown_status :: "js_prim option"
  thrown_message :: "string option"
  thrown_string :: string

datatype SupabaseClient = SupabaseClient string string
datatype OpenAIClient = OpenAIClient string
datatype GeminiClient = GeminiClient string
datatype GeminiModel = GeminiModel string
datatype provider = openai | gemini

text \<open>What the OpenAI client's \<open>embeddings.create\<close> resolves to: \<open>response.data\<close>, when the
  response has one, is an array of objects with an optional \<open>embedding\<close>. What Gemini's
  \<open>embedContent\<close> resolves to: \<open>result.embedding\<close>, when present, has an optional
  \<open>values\<close>.\<close>

datatype openai_input = Single string | Batch "string list"

type_synonym openai_response = "EmbeddingVector option list option"
type_synonym gemini_result = "EmbeddingVector option option"

text \<open>What can go wrong with one request to the store: nothing; the store (or the client
  library) answers with an error object; or the awaited call rejects. In the last two cases
  the request is taken not to have been applied.\<close>

datatype fault = NoFault | Refuses PostgrestError | Rejects thrown

text \<open>Every call that leaves the process, in order. The trace is bookkeeping of the model:
  it lets a theorem say that a call was or was not made.\<close>

datatype event =
    CreateClient string string
  | InsertConversation ConversationRecord
  | SelectOptOut int
  | InsertOptOut int
  | CountConversations
  | DeleteConversations int
  | NewOpenAI string
  | NewGoogleGenerativeAI string
  | EmbeddingsCreate openai_input
  | EmbedContent string

text \<open>The behaviour of everything outside the repository, taken as a parameter. Where an
  outcome may differ from one call to the next, it is a function of the number of external
  calls made before it.\<close>

record env =
  e_createClient :: "string \<Rightarrow> string \<Rightarrow> thrown + SupabaseClient"
  e_store_fault :: "nat \<Rightarrow> fault"
  e_server_now :: "nat \<Rightarrow> string"
  e_Date_now_iso :: "nat \<Rightarrow> string"
  e_toISOString :: "int \<Rightarrow> thrown + string"
  e_new_OpenAI :: "string \<Rightarrow> thrown + OpenAIClient"
  e_new_GoogleGenerativeAI :: "string \<Rightarrow> thrown + GeminiClient"
  e_embeddings_create :: "nat \<Rightarrow> openai_input \<Rightarrow> thrown + openai_response"
  e_getGenerativeModel :: "GeminiClient \<Rightarrow> thrown + GeminiModel"
  e_embedContent :: "nat \<Rightarrow> string \<Rightarrow> thrown + gemini_result"

section \<open>Logger (src/logger.ts)\<close>

datatype LogLevel = DEBUG | INFO | WARN | ERROR

text \<open>The module variables of \<open>supabase.ts\<close> and \<open>embeddings.ts\<close>, the level of the logger
  singleton (\<open>None\<close>: \<open>LOG_LEVEL\<close> holds a string that is no level), the lines written to
  the console as (level, message) pairs, the two tables of
  \<open>migrations/001_create_initial_schema.sql\<close> with their \<open>BIGSERIAL\<close> counters, and the
  trace of external calls.\<close>

record state =
  supabaseClient :: "SupabaseClient option"
  openaiClient :: "OpenAIClient option"
  geminiClient :: "GeminiClient option"
  embeddingsAvailable :: bool
  embeddingsProvider :: "provider option"
  logger_level :: "LogLevel option"
  console :: "(LogLevel \<times> string) list"
  conversations :: "ConversationRecord list"
  conversations_id_seq :: nat
  opt_out_users :: "OptOutUser list"
  opt_out_users_id_seq :: nat
  trace :: "event list"

text \<open>\<open>levels.indexOf(level)\<close> over \<open>[DEBUG, INFO, WARN, ERROR]\<close>.\<close>

fun levels_indexOf :: "LogLevel option \<Rightarrow> int" where
  "levels_indexOf (Some DEBUG) = 0"
| "levels_indexOf (Some INFO) = 1"
| "levels_indexOf (Some WARN) = 2"
| "levels_indexOf (Some ERROR) = 3"
| "levels_indexOf None = - 1"

definition shouldLog :: "LogLevel option \<Rightarrow> LogLevel \<Rightarrow> bool" where
  "shouldLog current lvl = (levels_indexOf (Some lvl) \<ge> levels_indexOf current)"

text \<open>\<open>Logger.debug/info/warn/error\<close>: the message is kept, the data argument and the text
  interpolated into a template are dropped, as are the emoji of the source's messages.\<close>

definition logger_log :: "LogLevel \<Rightarrow> string \<Rightarrow> state \<Rightarrow> state" where
  "logger_log lvl msg s =
     (if shouldLog (logger_level s) lvl then s\<lparr>console := console s @ [(lvl, msg)]\<rparr> else s)"

abbreviation "logger_debug \<equiv> logger_log DEBUG"
abbreviation "logger_info \<equiv> logger_log INFO"
abbreviation "logger_warn \<equiv> logger_log WARN"
abbreviation "logger_error \<equiv> logger_log ERROR"

section \<open>The store: the tables behind the Supabase client\<close>

text \<open>
  The requests the repository sends through \<open>@supabase/supabase-js\<close>, over the schema of
  \<open>migrations/001_create_initial_schema.sql\<close>: \<open>message_id BIGINT UNIQUE\<close>,
  \<open>user_id BIGINT UNIQUE\<close>, \<open>id BIGSERIAL PRIMARY KEY\<close>, \<open>vector vector(1536)\<close>,
  \<open>created_at\<close> and \<open>opted_out_at\<close> with \<open>DEFAULT NOW()\<close>. A request that violates a
  constraint resolves to an error object and changes no table.
\<close>

definition failure :: "PostgrestError \<Rightarrow> 'a response" where
  "failure err = \<lparr>data = None, count = None, error = Some err\<rparr>"

definition record_call :: "event \<Rightarrow> state \<Rightarrow> state" where
  "record_call ev s = s\<lparr>trace := trace s @ [ev]\<rparr>"

definition unique_violation :: "string \<Rightarrow> PostgrestError" where
  "unique_violation constraint =
     \<lparr>code = ''23505'',
      message = ''duplicate key value violates unique constraint '' @ constraint\<rparr>"

definition conversations_violation ::
  "ConversationRecord list \<Rightarrow> ConversationRecord \<Rightarrow> PostgrestError option" where
  "conversations_violation rows r =
     (if (case vector r of None \<Rightarrow> False | Some v \<Rightarrow> length v \<noteq> 1536)
      then Some \<lparr>code = ''22000'', message = ''expected 1536 dimensions''\<rparr>
      else if list_ex (\<lambda>q. row_id q = row_id r) rows
      then Some (unique_violation ''conversations_pkey'')
      else if list_ex (\<lambda>q. message_id q = message_id r) rows
      then Some (unique_violation ''conversations_message_id_key'')
      else None)"

text \<open>\<open>client.from('conversations').insert([record]).select()\<close>\<close>

definition insert_conversation ::
  "env \<Rightarrow> ConversationRecord \<Rightarrow> state \<Rightarrow> (thrown + ConversationRecord list response) \<times> state" where
  "insert_conversation E r s =
     (let n = length (trace s); s1 = record_call (InsertConversation r) s in
      case e_store_fault E n of
        Rejects x \<Rightarrow> (Inl x, s1)
      | Refuses err \<Rightarrow> (Inr (failure err), s1)
      | NoFault \<Rightarrow>
          (let row = r\<lparr>row_id := (case row_id r of None \<Rightarrow> Some (conversations_id_seq s1)
                                                   | Some i \<Rightarrow> Some i),
                        created_at := (case created_at r of None \<Rightarrow> Some (e_server_now E n)
                                                          | Some t \<Rightarrow> Some t)\<rparr>;
               s2 = (case row_id r of None \<Rightarrow> s1\<lparr>conversations_id_seq := Suc (conversations_id_seq s1)\<rparr>
                                    | Some i \<Rightarrow> s1)
           in case conversations_violation (conversations s2) row of
                Some err \<Rightarrow> (Inr (failure err), s2)
              | None \<Rightarrow>
                  (Inr \<lparr>data = Some [row], count = None, error = None\<rparr>,
                   s2\<lparr>conversations := conversations s2 @ [row]\<rparr>)))"

text \<open>\<open>client.from('opt_out_users').select('id').eq('user_id', userId).single()\<close>: exactly
  one matching row is the data; none or several is the error \<open>PGRST116\<close>.\<close>

definition select_opt_out_single ::
  "env \<Rightarrow> int \<Rightarrow> state \<Rightarrow> (thrown + nat option response) \<times> state" where
  "select_opt_out_single E uid s =
     (let n = length (trace s); s1 = record_call (SelectOptOut uid) s in
      case e_store_fault E n of
        Rejects x \<Rightarrow> (Inl x, s1)
      | Refuses err \<Rightarrow> (Inr (failure err), s1)
      | NoFault \<Rightarrow>
          (case filter (\<lambda>u. oo_user_id u = uid) (opt_out_users s1) of
             [u] \<Rightarrow> (Inr \<lparr>data = Some (oo_id u), count = None, error = None\<rparr>, s1)
           | _ \<Rightarrow> (Inr (failure \<lparr>code = ''PGRST116'',
                                   message = ''JSON object requested, multiple (or no) rows returned''\<rparr>),
                   s1)))"

text \<open>\<open>client.from('opt_out_users').insert([{ user_id, opted_out_at }])\<close>, without
  \<open>.select()\<close>: no data comes back.\<close>

definition insert_opt_out ::
  "env \<Rightarrow> OptOutUser \<Rightarrow> state \<Rightarrow> (thrown + unit response) \<times> state" where
  "insert_opt_out E u s =
     (let n = length (trace s); s1 = record_call (InsertOptOut (oo_user_id u)) s in
      case e_store_fault E n of
        Rejects x \<Rightarrow> (Inl x, s1)
      | Refuses err \<Rightarrow> (Inr (failure err), s1)
      | NoFault \<Rightarrow>
          (let row = u\<lparr>oo_id := (case oo_id u of None \<Rightarrow> Some (opt_out_users_id_seq s1)
                                                 | Some i \<Rightarrow> Some i),
                        opted_out_at := (case opted_out_at u of None \<Rightarrow> Some (e_server_now E n)
                                                              | Some t \<Rightarrow> Some t)\<rparr>;
               s2 = (case oo_id u of None \<Rightarrow> s1\<lparr>opt_out_users_id_seq := Suc (opt_out_users_id_seq s1)\<rparr>
                                   | Some i \<Rightarrow> s1)
           in if list_ex (\<lambda>q. oo_id q = oo_id row) (opt_out_users s2)
              then (Inr (failure (unique_violation ''opt_out_users_pkey'')), s2)
              else if list_ex (\<lambda>q. oo_user_id q = oo_user_id row) (opt_out_users s2)
              then (Inr (failure (unique_violation ''opt_out_users_user_id_key'')), s2)
              else (Inr \<lparr>data = None, count = None, error = None\<rparr>,
                    s2\<lparr>opt_out_users := opt_out_users s2 @ [row]\<rparr>)))"

text \<open>The \<open>count\<close> of a response is filled in only when the request names a count
  algorithm (\<open>{ count: 'exact' }\<close>); otherwise it is \<open>null\<close>.\<close>

datatype count_algorithm = exact | planned | estimated

definition reported_count :: "count_algorithm option \<Rightarrow> nat \<Rightarrow> nat option" where
  "reported_count opt n = (case opt of None \<Rightarrow> None | Some a \<Rightarrow> Some n)"

text \<open>\<open>client.from('conversations').select('*', { count, head: true })\<close>\<close>

definition select_conversations_head ::
  "env \<Rightarrow> count_algorithm option \<Rightarrow> state \<Rightarrow> (thrown + unit response) \<times> state" where
  "select_conversations_head E opt s =
     (let n = length (trace s); s1 = record_call CountConversations s in
      case e_store_fault E n of
        Rejects x \<Rightarrow> (Inl x, s1)
      | Refuses err \<Rightarrow> (Inr (failure err), s1)
      | NoFault \<Rightarrow>
          (Inr \<lparr>data = None, count = reported_count opt (length (conversations s1)), error = None\<rparr>,
           s1))"

text \<open>\<open>client.from('conversations').delete({ count }).eq('user_id', userId)\<close>\<close>

definition delete_conversations ::
  "env \<Rightarrow> count_algorithm option \<Rightarrow> int \<Rightarrow> state \<Rightarrow> (thrown + unit response) \<times> state" where
  "delete_conversations E opt uid s =
     (let n = length (trace s); s1 = record_call (DeleteConversations uid) s in
      case e_store_fault E n of
        Rejects x \<Rightarrow> (Inl x, s1)
      | Refuses err \<Rightarrow> (Inr (failure err), s1)
      | NoFault \<Rightarrow>
          (Inr \<lparr>data = None,
                count = reported_count opt (length (filter (\<lambda>r. user_id r = uid) (conversations s1))),
                error = None\<rparr>,
           s1\<lparr>conversations := filter (\<lambda>r. user_id r \<noteq> uid) (conversations s1)\<rparr>))"

section \<open>src/supabase.ts\<close>

text \<open>A function that can throw returns \<open>Inl\<close> of the thrown value.\<close>

definition initSupabase ::
  "env \<Rightarrow> string \<Rightarrow> string \<Rightarrow> state \<Rightarrow> (thrown + SupabaseClient) \<times> state" where
  "initSupabase E url key s =
     (case supabaseClient s of
        Some c \<Rightarrow> (Inr c, s)
      | None \<Rightarrow>
          (let s1 = record_call (CreateClient url key) s in
           case e_createClient E url key of
             Inl x \<Rightarrow> (Inl x, s1)
           | Inr c \<Rightarrow>
               (Inr c, logger_info ''Supabase client initialized'' (s1\<lparr>supabaseClient := Some c\<rparr>))))"

definition getSupabaseClient :: "state \<Rightarrow> thrown + SupabaseClient" where
  "getSupabaseClient s =
     (case supabaseClient s of
        None \<Rightarrow> Inl \<lparr>thrown_code = None, thrown_status = None,
                      thrown_message = Some ''Supabase client not initialized. Call initSupabase first.'',
                      thrown_string = ''Error: Supabase client not initialized. Call initSupabase first.''\<rparr>
      | Some c \<Rightarrow> Inr c)"

definition insertMessage ::
  "env \<Rightarrow> ConversationRecord \<Rightarrow> state \<Rightarrow> (thrown + ConversationRecord option) \<times> state" where
  "insertMessage E r s =
     (case getSupabaseClient s of
        Inl x \<Rightarrow> (Inl x, s)
      | Inr client \<Rightarrow>
          (case insert_conversation E r s of
             (Inl x, s1) \<Rightarrow> (Inr None, logger_error ''Unexpected error inserting message:'' s1)
           | (Inr res, s1) \<Rightarrow>
               (if error res \<noteq> None
                then (Inr None, logger_error ''Error inserting message into conversations:'' s1)
                else (Inr (case data res of None \<Rightarrow> None | Some [] \<Rightarrow> None | Some (row # rest) \<Rightarrow> Some row),
                      logger_debug ''Message inserted'' s1))))"

definition isUserOptedOut :: "env \<Rightarrow> int \<Rightarrow> state \<Rightarrow> (thrown + bool) \<times> state" where
  "isUserOptedOut E uid s =
     (case getSupabaseClient s of
        Inl x \<Rightarrow> (Inl x, s)
      | Inr client \<Rightarrow>
          (case select_opt_out_single E uid s of
             (Inl x, s1) \<Rightarrow> (Inr False, logger_error ''Unexpected error checking opt-out:'' s1)
           | (Inr res, s1) \<Rightarrow>
               (if (case error res of None \<Rightarrow> False | Some err \<Rightarrow> code err \<noteq> ''PGRST116'')
                then (Inr False, logger_error ''Error checking opt-out status:'' s1)
                else (Inr (data res \<noteq> None), s1))))"

definition addUserOptOut :: "env \<Rightarrow> int \<Rightarrow> state \<Rightarrow> (thrown + bool) \<times> state" where
  "addUserOptOut E uid s =
     (case getSupabaseClient s of
        Inl x \<Rightarrow> (Inl x, s)
      | Inr client \<Rightarrow>
          (case insert_opt_out E
                  \<lparr>oo_id = None, oo_user_id = uid,
                   opted_out_at = Some (e_Date_now_iso E (length (trace s)))\<rparr> s of
             (Inl x, s1) \<Rightarrow> (Inr False, logger_error ''Unexpected error during opt-out:'' s1)
           | (Inr res, s1) \<Rightarrow>
               (if error res \<noteq> None
                then (Inr False, logger_error ''Error adding user to opt-out list:'' s1)
                else (Inr True, logger_info ''User opted out'' s1))))"

text \<open>\<open>count || 0\<close>: a \<open>null\<close> count and the count \<open>0\<close> both give \<open>0\<close>.\<close>

definition count_or_0 :: "nat option \<Rightarrow> nat" where
  "count_or_0 c = (case c of None \<Rightarrow> 0 | Some n \<Rightarrow> n)"

definition getMessageCount :: "env \<Rightarrow> state \<Rightarrow> (thrown + nat) \<times> state" where
  "getMessageCount E s =
     (case getSupabaseClient s of
        Inl x \<Rightarrow> (Inl x, s)
      | Inr client \<Rightarrow>
          (case select_conversations_head E (Some exact) s of
             (Inl x, s1) \<Rightarrow> (Inr 0, logger_error ''Unexpected error getting message count:'' s1)
           | (Inr res, s1) \<Rightarrow>
               (if error res \<noteq> None
                then (Inr 0, logger_error ''Error getting message count:'' s1)
                else (Inr (count_or_0 (count res)), s1))))"

definition clearUserMessages :: "env \<Rightarrow> int \<Rightarrow> state \<Rightarrow> (thrown + nat) \<times> state" where
  "clearUserMessages E uid s =
     (case getSupabaseClient s of
        Inl x \<Rightarrow> (Inl x, s)
      | Inr client \<Rightarrow>
          (case delete_conversations E None uid s of
             (Inl x, s1) \<Rightarrow> (Inr 0, logger_error ''Unexpected error clearing messages:'' s1)
           | (Inr res, s1) \<Rightarrow>
               (if error res \<noteq> None
                then (Inr 0, logger_error ''Error clearing user messages:'' s1)
                else (Inr (count_or_0 (count res)), logger_info ''Cleared messages for user'' s1))))"

section \<open>src/embeddings.ts\<close>

text \<open>\<open>if (openaiKey)\<close>: an absent key and the empty string are both falsy.\<close>

definition truthy :: "string option \<Rightarrow> string option" where
  "truthy k = (case k of None \<Rightarrow> None | Some v \<Rightarrow> if v = [] then None else Some v)"

text \<open>
  \<open>initEmbeddings\<close>. The dynamic import and the constructor call of one provider are one
  outcome of the environment. \<open>try_OpenAI\<close> and \<open>try_Gemini\<close> are the two guarded blocks;
  their flag says whether the block ended in \<open>return\<close>. Nothing between the blocks can
  throw, so the outer \<open>catch\<close> has no path into it.
\<close>

definition try_OpenAI :: "env \<Rightarrow> string option \<Rightarrow> state \<Rightarrow> bool \<times> state" where
  "try_OpenAI E openaiKey s =
     (case truthy openaiKey of
        None \<Rightarrow> (False, s)
      | Some k \<Rightarrow>
          (let s1 = record_call (NewOpenAI k) s in
           case e_new_OpenAI E k of
             Inr c \<Rightarrow>
               (True, logger_info ''OpenAI embeddings initialized''
                        (s1\<lparr>openaiClient := Some c, embeddingsAvailable := True,
                            embeddingsProvider := Some openai\<rparr>))
           | Inl x \<Rightarrow> (False, logger_warn ''Failed to initialize OpenAI:'' s1)))"

definition try_Gemini :: "env \<Rightarrow> string option \<Rightarrow> state \<Rightarrow> bool \<times> state" where
  "try_Gemini E geminiKey s =
     (case truthy geminiKey of
        None \<Rightarrow> (False, s)
      | Some k \<Rightarrow>
          (let s1 = record_call (NewGoogleGenerativeAI k) s in
           case e_new_GoogleGenerativeAI E k of
             Inr c \<Rightarrow>
               (True, logger_info ''Google Gemini embeddings initialized''
                        (s1\<lparr>geminiClient := Some c, embeddingsAvailable := True,
                            embeddingsProvider := Some gemini\<rparr>))
           | Inl x \<Rightarrow> (False, logger_warn ''Failed to initialize Gemini:'' s1)))"

definition initEmbeddings ::
  "env \<Rightarrow> string option \<Rightarrow> string option \<Rightarrow> state \<Rightarrow> (thrown + unit) \<times> state" where
  "initEmbeddings E openaiKey geminiKey s =
     (case try_OpenAI E openaiKey s of
        (True, s1) \<Rightarrow> (Inr (), s1)
      | (False, s1) \<Rightarrow>
          (case try_Gemini E geminiKey s1 of
             (True, s2) \<Rightarrow> (Inr (), s2)
           | (False, s2) \<Rightarrow>
               (Inr (),
                (logger_warn ''No embedding provider configured (OpenAI or Gemini API keys missing). Messages will be ingested without vector embeddings.'' s2)
                  \<lparr>embeddingsAvailable := False, embeddingsProvider := None\<rparr>)))"

text \<open>\<open>response.data[0]?.embedding || null\<close>; a response without \<open>data\<close> makes the index
  expression throw inside the \<open>try\<close>.\<close>

definition generateOpenAIEmbedding ::
  "env \<Rightarrow> string \<Rightarrow> state \<Rightarrow> (thrown + EmbeddingVector option) \<times> state" where
  "generateOpenAIEmbedding E txt s =
     (case openaiClient s of
        None \<Rightarrow> (Inr None, s)
      | Some client \<Rightarrow>
          (let n = length (trace s); s1 = record_call (EmbeddingsCreate (Single txt)) s in
           case e_embeddings_create E n (Single txt) of
             Inl x \<Rightarrow> (Inr None, logger_error ''Error generating OpenAI embedding:'' s1)
           | Inr None \<Rightarrow> (Inr None, logger_error ''Error generating OpenAI embedding:'' s1)
           | Inr (Some ds) \<Rightarrow> (Inr (case ds of [] \<Rightarrow> None | d # rest \<Rightarrow> d), s1)))"

text \<open>\<open>result.embedding.values || null\<close>; a result without \<open>embedding\<close> makes the member
  access throw inside the \<open>try\<close>. \<open>getGenerativeModel\<close> builds a local handle.\<close>

definition generateGeminiEmbedding ::
  "env \<Rightarrow> string \<Rightarrow> state \<Rightarrow> (thrown + EmbeddingVector option) \<times> state" where
  "generateGeminiEmbedding E txt s =
     (case geminiClient s of
        None \<Rightarrow> (Inr None, s)
      | Some client \<Rightarrow>
          (case e_getGenerativeModel E client of
             Inl x \<Rightarrow> (Inr None, logger_error ''Error generating Gemini embedding:'' s)
           | Inr model \<Rightarrow>
               (let n = length (trace s); s1 = record_call (EmbedContent txt) s in
                case e_embedContent E n txt of
                  Inl x \<Rightarrow> (Inr None, logger_error ''Error generating Gemini embedding:'' s1)
                | Inr None \<Rightarrow> (Inr None, logger_error ''Error generating Gemini embedding:'' s1)
                | Inr (Some values) \<Rightarrow> (Inr values, s1))))"

definition generateEmbedding ::
  "env \<Rightarrow> string \<Rightarrow> state \<Rightarrow> (thrown + EmbeddingResult) \<times> state" where
  "generateEmbedding E txt s =
     (if \<not> embeddingsAvailable s then (Inr \<lparr>er_text = txt, embedding = None\<rparr>, s)
      else
        (case (if embeddingsProvider s = Some openai then generateOpenAIEmbedding E txt s
               else if embeddingsProvider s = Some gemini then generateGeminiEmbedding E txt s
               else (Inr None, s)) of
           (Inl x, s1) \<Rightarrow>
             (Inr \<lparr>er_text = txt, embedding = None\<rparr>,
              logger_error ''Unexpected error during embedding generation:'' s1)
         | (Inr v, s1) \<Rightarrow> (Inr \<lparr>er_text = txt, embedding = v\<rparr>, s1)))"

definition areEmbeddingsAvailable :: "state \<Rightarrow> bool" where
  "areEmbeddingsAvailable s = embeddingsAvailable s"

definition getEmbeddingsProvider :: "state \<Rightarrow> string" where
  "getEmbeddingsProvider s =
     (case embeddingsProvider s of
        Some openai \<Rightarrow> ''OPENAI'' | Some gemini \<Rightarrow> ''GEMINI'' | None \<Rightarrow> ''None'')"

text \<open>\<open>texts.map((text) => ({ text, embedding: null }))\<close>\<close>

definition all_null :: "string list \<Rightarrow> EmbeddingResult list" where
  "all_null texts = map (\<lambda>t. \<lparr>er_text = t, embedding = None\<rparr>) texts"

text \<open>\<open>xs[index]\<close> of an array that may be shorter: \<open>undefined\<close> beyond its end.\<close>

definition at_index :: "'a option list \<Rightarrow> nat \<Rightarrow> 'a option" where
  "at_index xs i = (if i < length xs then xs ! i else None)"

text \<open>\<open>texts.map((text, index) => ({ text, embedding: f(index) }))\<close>\<close>

definition map_indexed ::
  "(nat \<Rightarrow> EmbeddingVector option) \<Rightarrow> string list \<Rightarrow> EmbeddingResult list" where
  "map_indexed f texts =
     map (\<lambda>(t, i). \<lparr>er_text = t, embedding = f i\<rparr>) (zip texts [0 ..< length texts])"

text \<open>With no \<open>data\<close> in the response the callback of \<open>texts.map\<close> throws at the first text;
  for no text at all it never runs.\<close>

definition generateBatchOpenAIEmbeddings ::
  "env \<Rightarrow> string list \<Rightarrow> state \<Rightarrow> (thrown + EmbeddingResult list) \<times> state" where
  "generateBatchOpenAIEmbeddings E texts s =
     (case openaiClient s of
        None \<Rightarrow> (Inr (all_null texts), s)
      | Some client \<Rightarrow>
          (let n = length (trace s); s1 = record_call (EmbeddingsCreate (Batch texts)) s in
           case e_embeddings_create E n (Batch texts) of
             Inl x \<Rightarrow>
               (Inr (all_null texts), logger_error ''Error generating batch OpenAI embeddings:'' s1)
           | Inr None \<Rightarrow>
               (if texts = [] then (Inr [], s1)
                else (Inr (all_null texts),
                      logger_error ''Error generating batch OpenAI embeddings:'' s1))
           | Inr (Some ds) \<Rightarrow> (Inr (map_indexed (at_index ds) texts), s1)))"

text \<open>The callbacks handed to \<open>Promise.all\<close>: one \<open>embedContent\<close> call per text, started in
  the order of the texts, each with its own \<open>try\<close>. The debug lines of failed items are
  written here in that order too.\<close>

fun embedContent_each ::
  "env \<Rightarrow> string list \<Rightarrow> state \<Rightarrow> EmbeddingVector option list \<times> state" where
  "embedContent_each E [] s = ([], s)"
| "embedContent_each E (t # ts) s =
     (let n = length (trace s); s1 = record_call (EmbedContent t) s;
          (v, s2) = (case e_embedContent E n t of
                       Inl x \<Rightarrow> (None, logger_debug ''Error embedding text'' s1)
                     | Inr None \<Rightarrow> (None, logger_debug ''Error embedding text'' s1)
                     | Inr (Some values) \<Rightarrow> (values, s1));
          (vs, s3) = embedContent_each E ts s2
      in (v # vs, s3))"

definition generateBatchGeminiEmbeddings ::
  "env \<Rightarrow> string list \<Rightarrow> state \<Rightarrow> (thrown + EmbeddingResult list) \<times> state" where
  "generateBatchGeminiEmbeddings E texts s =
     (case geminiClient s of
        None \<Rightarrow> (Inr (all_null texts), s)
      | Some client \<Rightarrow>
          (case e_getGenerativeModel E client of
             Inl x \<Rightarrow>
               (Inr (all_null texts), logger_error ''Error generating batch Gemini embeddings:'' s)
           | Inr model \<Rightarrow>
               (case embedContent_each E texts s of
                  (results, s1) \<Rightarrow> (Inr (map_indexed (at_index results) texts), s1))))"

text \<open>The provider's promise is returned without \<open>await\<close>: a rejection of it would pass the
  \<open>try\<close> and reach the caller.\<close>

definition generateBatchEmbeddings ::
  "env \<Rightarrow> string list \<Rightarrow> state \<Rightarrow> (thrown + EmbeddingResult list) \<times> state" where
  "generateBatchEmbeddings E texts s =
     (if \<not> embeddingsAvailable s then (Inr (all_null texts), s)
      else if embeddingsProvider s = Some openai then generateBatchOpenAIEmbeddings E texts s
      else if embeddingsProvider s = Some gemini then generateBatchGeminiEmbeddings E texts s
      else (Inr (all_null texts), s))"

section \<open>The ingestion handlers (\<open>bot.on('message', ...)\<close>)\<close>

text \<open>
  What the handlers read of a grammY \<open>Context\<close>: \<open>ctx.message\<close> (\<open>message_id\<close>, \<open>text\<close>,
  \<open>date\<close>), \<open>ctx.from\<close> (\<open>id\<close>, \<open>username\<close>, \<open>first_name\<close>, \<open>last_name\<close>) and \<open>ctx.chat\<close>
  (\<open>id\<close>).
\<close>

record Message =
  m_message_id :: int
  m_text :: "string option"
  date :: int

record User =
  u_id :: int
  username :: "string option"
  first_name :: string
  last_name :: "string option"

record Chat =
  chat_id :: int

record Context =
  ctx_message :: "Message option"
  ctx_from :: "User option"
  ctx_chat :: "Chat option"

text \<open>\<open>message?.text\<close> when truthy: there is a message and its text is not empty.\<close>

definition message_with_text :: "Context \<Rightarrow> (Message \<times> string) option" where
  "message_with_text ctx =
     (case ctx_message ctx of
        None \<Rightarrow> None
      | Some m \<Rightarrow> (case m_text m of None \<Rightarrow> None | Some t \<Rightarrow> if t = [] then None else Some (m, t)))"

text \<open>\<open>ctx.chat?.id\<close> when truthy: there is a chat and its id is not 0.\<close>

definition chatId_of :: "Context \<Rightarrow> int option" where
  "chatId_of ctx =
     (case ctx_chat ctx of None \<Rightarrow> None | Some c \<Rightarrow> if chat_id c = 0 then None else Some (chat_id c))"

text \<open>The object literal \<open>telegramMessage\<close> (\<open>// Parse Telegram message\<close>).\<close>

definition parseTelegramMessage :: "Message \<Rightarrow> string \<Rightarrow> User \<Rightarrow> int \<Rightarrow> TelegramMessage" where
  "parseTelegramMessage msg txt user chatId =
     \<lparr>messageId = m_message_id msg, tm_text = txt, userId = u_id user, groupId = chatId,
      tm_timestamp = date msg * 1000, userName = username user,
      userFirstName = Some (first_name user), userLastName = last_name user\<rparr>"

text \<open>The object literal \<open>dbRecord\<close> (\<open>// Prepare database record\<close>): the Record Builder.
  \<open>Date.prototype.toISOString\<close> is a parameter; it throws on an invalid date.\<close>

definition dbRecord ::
  "(int \<Rightarrow> thrown + string) \<Rightarrow> TelegramMessage \<Rightarrow> EmbeddingVector option
     \<Rightarrow> thrown + ConversationRecord" where
  "dbRecord toISOString telegramMessage v =
     (case toISOString (tm_timestamp telegramMessage) of
        Inl x \<Rightarrow> Inl x
      | Inr isoString \<Rightarrow>
          Inr \<lparr>row_id = None,
               message_id = messageId telegramMessage,
               text' = tm_text telegramMessage,
               user_id = userId telegramMessage,
               group_id = groupId telegramMessage,
               timestamp = isoString,
               vector = v,
               user_name = userName telegramMessage,
               user_first_name = userFirstName telegramMessage,
               user_last_name = userLastName telegramMessage,
               created_at = None\<rparr>)"

subsection \<open>\<open>bot.ts\<close>, first version (src/unnamed/part_000, lines 62-123)\<close>

text \<open>The handler from the embedding step on; an exception anywhere lands in the one
  \<open>catch\<close> of the handler.\<close>

definition embed_and_store ::
  "env \<Rightarrow> Message \<Rightarrow> string \<Rightarrow> User \<Rightarrow> int \<Rightarrow> state \<Rightarrow> state" where
  "embed_and_store E msg txt user chatId s =
     (let telegramMessage = parseTelegramMessage msg txt user chatId in
      case (if areEmbeddingsAvailable s
            then (case generateEmbedding E txt s of
                    (Inl x, s1) \<Rightarrow> (Inl x, s1)
                  | (Inr embeddingResult, s1) \<Rightarrow> (Inr (embedding embeddingResult), s1))
            else (Inr None, s)) of
        (Inl x, s1) \<Rightarrow> logger_error ''Error processing message:'' s1
      | (Inr v, s1) \<Rightarrow>
          (case dbRecord (e_toISOString E) telegramMessage v of
             Inl x \<Rightarrow> logger_error ''Error processing message:'' s1
           | Inr r \<Rightarrow>
               (case insertMessage E r s1 of
                  (Inl x, s2) \<Rightarrow> logger_error ''Error processing message:'' s2
                | (Inr result, s2) \<Rightarrow> s2)))"

definition bot_on_message :: "env \<Rightarrow> Context \<Rightarrow> state \<Rightarrow> state" where
  "bot_on_message E ctx s =
     (case message_with_text ctx of
        None \<Rightarrow> s
      | Some (msg, txt) \<Rightarrow>
          (case ctx_from ctx of
             None \<Rightarrow> s
           | Some user \<Rightarrow>
               (case isUserOptedOut E (u_id user) s of
                  (Inl x, s1) \<Rightarrow> logger_error ''Error processing message:'' s1
                | (Inr optedOut, s1) \<Rightarrow>
                    (if optedOut then logger_debug ''User is opted out, skipping message.'' s1
                     else (case chatId_of ctx of
                             None \<Rightarrow> s1
                           | Some chatId \<Rightarrow> embed_and_store E msg txt user chatId s1)))))"

subsection \<open>\<open>bot.ts\<close>, later version (src/unnamed/part_001, lines 171-246)\<close>

text \<open>The same steps with debug lines, and an error line when \<open>insertMessage\<close> returns
  \<open>null\<close>. The closing \<open>return next()\<close> hands the update to later middleware.\<close>

definition embed_and_store_async ::
  "env \<Rightarrow> Message \<Rightarrow> string \<Rightarrow> User \<Rightarrow> int \<Rightarrow> state \<Rightarrow> state" where
  "embed_and_store_async E msg txt user chatId s =
     (let telegramMessage = parseTelegramMessage msg txt user chatId;
          s0 = logger_debug ''[ASYNC] Parsed TelegramMessage:'' s in
      case (if areEmbeddingsAvailable s0
            then (case generateEmbedding E txt s0 of
                    (Inl x, s1) \<Rightarrow> (Inl x, s1)
                  | (Inr embeddingResult, s1) \<Rightarrow>
                      (Inr (embedding embeddingResult), logger_debug ''[ASYNC] Generated embedding:'' s1))
            else (Inr None, s0)) of
        (Inl x, s1) \<Rightarrow> logger_error ''Error processing message:'' s1
      | (Inr v, s1) \<Rightarrow>
          (case dbRecord (e_toISOString E) telegramMessage v of
             Inl x \<Rightarrow> logger_error ''Error processing message:'' s1
           | Inr r \<Rightarrow>
               (case insertMessage E r
                       (logger_debug ''[ASYNC] Attempting insertMessage with:''
                          (logger_debug ''[ASYNC] Prepared dbRecord:'' s1)) of
                  (Inl x, s2) \<Rightarrow> logger_error ''Error processing message:'' s2
                | (Inr result, s2) \<Rightarrow>
                    (let s3 = logger_debug ''[ASYNC] insertMessage result:'' s2 in
                     if result = None
                     then logger_error ''[ASYNC] insertMessage failed for dbRecord:'' s3
                     else s3))))"

definition bot_on_message_async :: "env \<Rightarrow> Context \<Rightarrow> state \<Rightarrow> state" where
  "bot_on_message_async E ctx s =
     (let s0 = logger_debug ''[ASYNC] Received message:'' s in
      case message_with_text ctx of
        None \<Rightarrow> logger_debug ''[ASYNC] No text in message, skipping.'' s0
      | Some (msg, txt) \<Rightarrow>
          (case ctx_from ctx of
             None \<Rightarrow> logger_debug ''[ASYNC] No user in message, skipping.'' s0
           | Some user \<Rightarrow>
               (case isUserOptedOut E (u_id user) s0 of
                  (Inl x, s1) \<Rightarrow> logger_error ''Error processing message:'' s1
                | (Inr optedOut, s1) \<Rightarrow>
                    (let s2 = logger_debug ''[ASYNC] User optedOut:'' s1 in
                     if optedOut
                     then logger_debug ''[ASYNC] User is opted out, skipping message.'' s2
                     else (case chatId_of ctx of
                             None \<Rightarrow> logger_debug ''[ASYNC] No chatId, skipping.'' s2
                           | Some chatId \<Rightarrow> embed_and_store_async E msg txt user chatId s2)))))"

subsection \<open>\<open>api/webhook.ts\<close>, lines 34-138\<close>

text \<open>\<open>message.includes('duplicate')\<close>\<close>

fun str_includes :: "string \<Rightarrow> string \<Rightarrow> bool" where
  "str_includes [] sub = (sub = [])"
| "str_includes (c # cs) sub = (take (length sub) (c # cs) = sub \<or> str_includes cs sub)"

text \<open>The test of the \<open>catch\<close> around \<open>insertMessage\<close>:
  \<open>code = errorObj?.code ?? errorObj?.status\<close>, \<open>message = errorObj?.message ?? String(errorObj)\<close>,
  \<open>code === '409' || code === 409 || (message && message.includes('duplicate'))\<close>.\<close>

definition is_duplicate_error :: "thrown \<Rightarrow> bool" where
  "is_duplicate_error errorObj =
     (let code = (case thrown_code errorObj of Some c \<Rightarrow> Some c | None \<Rightarrow> thrown_status errorObj);
          message = (case thrown_message errorObj of Some m \<Rightarrow> m | None \<Rightarrow> thrown_string errorObj)
      in code = Some (JStr ''409'') \<or> code = Some (JNum 409)
         \<or> (message \<noteq> [] \<and> str_includes message ''duplicate''))"

text \<open>The \<open>try\<close> around \<open>insertMessage\<close> and its \<open>catch\<close> (lines 111-133).\<close>

definition store_webhook :: "env \<Rightarrow> ConversationRecord \<Rightarrow> state \<Rightarrow> state" where
  "store_webhook E r s =
     (case insertMessage E r s of
        (Inr result, s1) \<Rightarrow>
          (let s2 = logger_debug ''[ASYNC] insertMessage result:'' s1 in
           if result = None
           then logger_error ''[ASYNC] insertMessage failed for dbRecord:'' s2
           else s2)
      | (Inl err, s1) \<Rightarrow>
          (if is_duplicate_error err
           then logger_warn ''[ASYNC] Duplicate message detected, skipping insert:'' s1
           else logger_error ''[ASYNC] Unexpected error inserting message:'' s1))"

definition embed_and_store_webhook ::
  "env \<Rightarrow> Message \<Rightarrow> string \<Rightarrow> User \<Rightarrow> int \<Rightarrow> state \<Rightarrow> state" where
  "embed_and_store_webhook E msg txt user chatId s =
     (let telegramMessage = parseTelegramMessage msg txt user chatId;
          s0 = logger_debug ''[ASYNC] Parsed TelegramMessage:'' s;
          (v, s1) =
            (if areEmbeddingsAvailable s0
             then (case generateEmbedding E txt s0 of
                     (Inl x, t) \<Rightarrow> (None, logger_warn ''[ASYNC] Embedding generation failed:'' t)
                   | (Inr embeddingResult, t) \<Rightarrow>
                       (embedding embeddingResult, logger_debug ''[ASYNC] Generated embedding:'' t))
             else (None, s0))
      in case dbRecord (e_toISOString E) telegramMessage v of
           Inl x \<Rightarrow> logger_error ''Error processing message:'' s1
         | Inr r \<Rightarrow>
             store_webhook E r
               (logger_debug ''[ASYNC] Attempting insertMessage with:''
                  (logger_info ''[ASYNC] Insert attempt:''
                     (logger_debug ''[ASYNC] Prepared dbRecord:'' s1))))"

definition webhook_on_message :: "env \<Rightarrow> Context \<Rightarrow> state \<Rightarrow> state" where
  "webhook_on_message E ctx s =
     (let s0 = logger_debug ''[ASYNC] Received message:''
                 (logger_debug ''[ASYNC] Ingestion handler triggered for message:'' s) in
      case message_with_text ctx of
        None \<Rightarrow> logger_debug ''[ASYNC] No text in message, skipping.'' s0
      | Some (msg, txt) \<Rightarrow>
          (case ctx_from ctx of
             None \<Rightarrow> logger_debug ''[ASYNC] No user in message, skipping.'' s0
           | Some user \<Rightarrow>
               (let (optedOut, s1) =
                      (case isUserOptedOut E (u_id user) s0 of
                         (Inl err, t) \<Rightarrow> (False, logger_warn ''[ASYNC] Opt-out check failed for user'' t)
                       | (Inr b, t) \<Rightarrow> (b, logger_debug ''[ASYNC] User optedOut:'' t))
                in if optedOut
                   then logger_debug ''[ASYNC] User is opted out, skipping message.'' s1
                   else (case chatId_of ctx of
                           None \<Rightarrow> logger_debug ''[ASYNC] No chatId, skipping.'' s1
                         | Some chatId \<Rightarrow> embed_and_store_webhook E msg txt user chatId s1))))"

section \<open>Reading the trace\<close>

text \<open>The records handed to the store's insert, and the attempts to construct a Gemini
  client.\<close>

fun insert_calls :: "event list \<Rightarrow> ConversationRecord list" where
  "insert_calls [] = []"
| "insert_calls (InsertConversation r # evs) = r # insert_calls evs"
| "insert_calls (ev # evs) = insert_calls evs"

fun is_Gemini_construction :: "event \<Rightarrow> bool" where
  "is_Gemini_construction (NewGoogleGenerativeAI k) = True"
| "is_Gemini_construction ev = False"

section \<open>Vocabulary of the statements about \<open>embeddings.ts\<close>\<close>

text \<open>The client that the OpenAI step of \<open>initEmbeddings\<close> obtains: none when the key is
  absent or empty, none when the import or the constructor throws. Likewise for Gemini.\<close>

definition constructs_OpenAI :: "env \<Rightarrow> string option \<Rightarrow> OpenAIClient option" where
  "constructs_OpenAI E openaiKey =
     (case truthy openaiKey of
        None \<Rightarrow> None
      | Some k \<Rightarrow> (case e_new_OpenAI E k of Inl x \<Rightarrow> None | Inr c \<Rightarrow> Some c))"

definition constructs_Gemini :: "env \<Rightarrow> string option \<Rightarrow> GeminiClient option" where
  "constructs_Gemini E geminiKey =
     (case truthy geminiKey of
        None \<Rightarrow> None
      | Some k \<Rightarrow> (case e_new_GoogleGenerativeAI E k of Inl x \<Rightarrow> None | Inr c \<Rightarrow> Some c))"

text \<open>The call that the selected provider would make for one text, in state \<open>s\<close>, fails: it
  rejects, or what it resolves to holds no embedding (no \<open>data\<close>, an empty \<open>data\<close>, a first
  entry without \<open>embedding\<close>; no \<open>embedding\<close>, no \<open>values\<close>), or, for Gemini,
  \<open>getGenerativeModel\<close> throws.\<close>

definition backend_fails :: "env \<Rightarrow> string \<Rightarrow> state \<Rightarrow> bool" where
  "backend_fails E txt s =
     (case embeddingsProvider s of
        None \<Rightarrow> False
      | Some openai \<Rightarrow>
          (case e_embeddings_create E (length (trace s)) (Single txt) of
             Inr (Some (Some v # rest)) \<Rightarrow> False
           | _ \<Rightarrow> True)
      | Some gemini \<Rightarrow>
          (case geminiClient s of
             None \<Rightarrow> False
           | Some c \<Rightarrow>
               (case e_getGenerativeModel E c of
                  Inl x \<Rightarrow> True
                | Inr m \<Rightarrow>
                    (case e_embedContent E (length (trace s)) txt of
                       Inr (Some (Some v)) \<Rightarrow> False
                     | _ \<Rightarrow> True))))"

text \<open>What the \<open>embedContent\<close> call number \<open>n\<close> gives for the text \<open>t\<close>: its values, or
  nothing when the call fails.\<close>

definition item_result :: "env \<Rightarrow> nat \<Rightarrow> string \<Rightarrow> EmbeddingVector option" where
  "item_result E n t = (case e_embedContent E n t of Inr (Some values) \<Rightarrow> values | _ \<Rightarrow> None)"

text \<open>
  The embedding that entry \<open>i\<close> of a batch result is to hold, read off the spec: absent
  when no provider is active or the call for the whole batch fails; with OpenAI, entry \<open>i\<close>
  of the response; with Gemini, the outcome of the call made for text \<open>i\<close>, which is the
  call number \<open>i\<close> after those already made.
\<close>

definition expected_batch_embedding ::
  "env \<Rightarrow> string list \<Rightarrow> state \<Rightarrow> nat \<Rightarrow> EmbeddingVector option" where
  "expected_batch_embedding E texts s i =
     (if \<not> embeddingsAvailable s then None
      else case embeddingsProvider s of
        None \<Rightarrow> None
      | Some openai \<Rightarrow>
          (case openaiClient s of
             None \<Rightarrow> None
           | Some c \<Rightarrow>
               (case e_embeddings_create E (length (trace s)) (Batch texts) of
                  Inr (Some ds) \<Rightarrow> at_index ds i
                | _ \<Rightarrow> None))
      | Some gemini \<Rightarrow>
          (case geminiClient s of
             None \<Rightarrow> None
           | Some c \<Rightarrow>
               (case e_getGenerativeModel E c of
                  Inl x \<Rightarrow> None
                | Inr m \<Rightarrow> item_result E (length (trace s) + i) (texts ! i))))"

section \<open>An example environment and example states\<close>

text \<open>An environment in which nothing fails. Its \<open>toISOString\<close> knows the one date the
  examples use.\<close>

definition env0 :: env where
  "env0 =
     \<lparr>e_createClient = (\<lambda>url key. Inr (SupabaseClient url key)),
      e_store_fault = (\<lambda>n. NoFault),
      e_server_now = (\<lambda>n. ''2023-11-14T22:13:21.000Z''),
      e_Date_now_iso = (\<lambda>n. ''2023-11-14T22:13:21.000Z''),
      e_toISOString = (\<lambda>t. if t = 1700000000000 then Inr ''2023-11-14T22:13:20.000Z''
                              else Inl \<lparr>thrown_code = None, thrown_status = None,
                                        thrown_message = Some ''Invalid time value'',
                                        thrown_string = ''RangeError: Invalid time value''\<rparr>),
      e_new_OpenAI = (\<lambda>k. Inr (OpenAIClient k)),
      e_new_GoogleGenerativeAI = (\<lambda>k. Inr (GeminiClient k)),
      e_embeddings_create = (\<lambda>n i. Inr (Some [Some [1, 2]])),
      e_getGenerativeModel = (\<lambda>c. Inr (GeminiModel ''embedding-001'')),
      e_embedContent = (\<lambda>n t. Inr (Some (Some [1, 2])))\<rparr>"

text \<open>The state at module load, and the state once \<open>initSupabase\<close> has run.\<close>

definition state0 :: state where
  "state0 =
     \<lparr>supabaseClient = None, openaiClient = None, geminiClient = None,
      embeddingsAvailable = False, embeddingsProvider = None,
      logger_level = Some DEBUG, console = [],
      conversations = [], conversations_id_seq = 1,
      opt_out_users = [], opt_out_users_id_seq = 1, trace = []\<rparr>"

definition ready :: state where
  "ready = snd (initSupabase env0 ''https://db.example'' ''key'' state0)"

definition fetch_failed :: thrown where
  "fetch_failed =
     \<lparr>thrown_code = None, thrown_status = None, thrown_message = Some ''fetch failed'',
      thrown_string = ''TypeError: fetch failed''\<rparr>"

text \<open>An environment whose store rejects every request.\<close>

definition rejecting :: env where
  "rejecting = env0\<lparr>e_store_fault := (\<lambda>n. Rejects fetch_failed)\<rparr>"

definition example_record :: "int \<Rightarrow> int \<Rightarrow> ConversationRecord" where
  "example_record mid uid =
     \<lparr>row_id = None, message_id = mid, text' = ''hello'', user_id = uid, group_id = 100,
      timestamp = ''2023-11-14T22:13:20.000Z'', vector = None, user_name = None,
      user_first_name = Some ''Ada'', user_last_name = None, created_at = None\<rparr>"

text \<open>Three stored messages: two of sender 3, one of sender 4.\<close>

definition three_rows :: state where
  "three_rows =
     snd (insertMessage env0 (example_record 12 4)
       (snd (insertMessage env0 (example_record 11 3)
         (snd (insertMessage env0 (example_record 10 3) ready)))))"

text \<open>An update: message \<open>mid\<close> with text \<open>hello\<close> from sender \<open>uid\<close> in chat 100.\<close>

definition example_update :: "int \<Rightarrow> int \<Rightarrow> Context" where
  "example_update mid uid =
     \<lparr>ctx_message = Some \<lparr>m_message_id = mid, m_text = Some ''hello'', date = 1700000000\<rparr>,
      ctx_from = Some \<lparr>u_id = uid, username = None, first_name = ''Ada'', last_name = None\<rparr>,
      ctx_chat = Some \<lparr>chat_id = 100\<rparr>\<rparr>"

text \<open>The three stored messages, after sender 7 has opted out.\<close>

definition opted_out_7 :: state where
  "opted_out_7 = snd (addUserOptOut env0 7 three_rows)"

text \<open>An environment in which neither provider's client can be constructed, and one in
  which the embedding backends fail: OpenAI always, Gemini for the text \<open>b\<close>.\<close>

definition no_provider :: env where
  "no_provider = env0\<lparr>e_new_OpenAI := (\<lambda>k. Inl fetch_failed),
                      e_new_GoogleGenerativeAI := (\<lambda>k. Inl fetch_failed)\<rparr>"

definition flaky :: env where
  "flaky = env0\<lparr>e_embeddings_create := (\<lambda>n i. Inl fetch_failed),
                e_embedContent := (\<lambda>n t. if t = ''b'' then Inl fetch_failed
                                           else Inr (Some (Some [1, 2])))\<rparr>"

text \<open>The state after \<open>initEmbeddings\<close> with both keys, and with the Gemini key only.\<close>

definition with_openai :: state where
  "with_openai = snd (initEmbeddings env0 (Some ''sk-a'') (Some ''g-b'') ready)"

definition with_gemini :: state where
  "with_gemini = snd (initEmbeddings env0 None (Some ''g-b'') ready)"

text \<open>The update with message id 555 from sender 9, delivered to the webhook handler once
  and twice.\<close>

definition delivered_once :: state where
  "delivered_once = webhook_on_message env0 (example_update 555 9) ready"

definition delivered_twice :: state where
  "delivered_twice = webhook_on_message env0 (example_update 555 9) delivered_once"

text \<open>An environment in which \<open>createClient\<close> throws, and the state in which a failed
  \<open>initSupabase\<close> leaves the process: \<open>getBot\<close> of \<open>api/webhook.ts\<close> has by then stored the
  bot with its handlers, and later requests reuse it without calling \<open>initSupabase\<close> again.\<close>

definition invalid_url :: thrown where
  "invalid_url =
     \<lparr>thrown_code = None, thrown_status = None, thrown_message = Some ''Invalid supabaseUrl'',
      thrown_string = ''Error: Invalid supabaseUrl''\<rparr>"

definition no_client :: env where
  "no_client = env0\<lparr>e_createClient := (\<lambda>url key. Inl invalid_url)\<rparr>"

definition init_failed :: state where
  "init_failed = snd (initSupabase no_client ''db.example'' ''key'' state0)"

section \<open>Basic facts\<close>

lemmas eval_defs = env0_def state0_def ready_def initSupabase_def three_rows_def example_record_def
  example_update_def rejecting_def fetch_failed_def opted_out_7_def
  no_provider_def flaky_def with_openai_def with_gemini_def delivered_once_def delivered_twice_def
  invalid_url_def no_client_def init_failed_def
  insertMessage_def insert_conversation_def conversations_violation_def
  isUserOptedOut_def select_opt_out_single_def addUserOptOut_def insert_opt_out_def
  clearUserMessages_def delete_conversations_def getMessageCount_def
  select_conversations_head_def reported_count_def count_or_0_def
  getSupabaseClient_def record_call_def failure_def unique_violation_def
  logger_log_def shouldLog_def

lemma logger_log_fields [simp]:
  "supabaseClient (logger_log l m s) = supabaseClient s"
  "openaiClient (logger_log l m s) = openaiClient s"
  "geminiClient (logger_log l m s) = geminiClient s"
  "embeddingsAvailable (logger_log l m s) = embeddingsAvailable s"
  "embeddingsProvider (logger_log l m s) = embeddingsProvider s"
  "logger_level (logger_log l m s) = logger_level s"
  "conversations (logger_log l m s) = conversations s"
  "conversations_id_seq (logger_log l m s) = conversations_id_seq s"
  "opt_out_users (logger_log l m s) = opt_out_users s"
  "opt_out_users_id_seq (logger_log l m s) = opt_out_users_id_seq s"
  "trace (logger_log l m s) = trace s"
  by (simp_all add: logger_log_def)

lemma insert_calls_append: "insert_calls (xs @ ys) = insert_calls xs @ insert_calls ys"
  by (induction xs rule: insert_calls.induct) simp_all

lemma isUserOptedOut_keeps:
  "insert_calls (trace (snd (isUserOptedOut E uid s))) = insert_calls (trace s)"
  "conversations (snd (isUserOptedOut E uid s)) = conversations s"
  by (auto simp: isUserOptedOut_def getSupabaseClient_def select_opt_out_single_def
      record_call_def Let_def insert_calls_append
      split: option.splits fault.splits list.splits prod.splits sum.splits)

lemma isUserOptedOut_logger:
  "fst (isUserOptedOut E uid (logger_log l m s)) = fst (isUserOptedOut E uid s)"
  by (auto simp: isUserOptedOut_def getSupabaseClient_def select_opt_out_single_def
      record_call_def Let_def
      split: option.splits fault.splits list.splits prod.splits sum.splits)

section \<open>The client handle of \<open>supabase.ts\<close>\<close>



section \<open>The privacy gate\<close>

lemma shouldLog_ERROR: "shouldLog l ERROR"
proof (cases l)
  case None
  then show ?thesis by (simp add: shouldLog_def)
next
  case (Some lvl)
  then show ?thesis by (cases lvl) (simp_all add: shouldLog_def)
qed

lemma logger_error_console:
  "console (logger_error m s) = console s @ [(ERROR, m)]"
  by (simp add: logger_log_def shouldLog_ERROR)

text \<open>
  C4, as the claim states it: every thrown exception would end in the answer \<open>false\<close>. The
  call \<open>getSupabaseClient()\<close> stands before the \<open>try\<close> of \<open>isUserOptedOut\<close>. After an
  \<open>initSupabase\<close> that failed, the lookup for sender 7 throws the error of
  \<open>getSupabaseClient\<close>; it does not return \<open>false\<close>.
\<close>

theorem isUserOptedOut_uninitialized_counterexample:
  "fst (initSupabase no_client ''db.example'' ''key'' state0) = Inl invalid_url
   \<and> fst (isUserOptedOut env0 7 init_failed)
       = Inl \<lparr>thrown_code = None, thrown_status = None,
               thrown_message = Some ''Supabase client not initialized. Call initSupabase first.'',
               thrown_string = ''Error: Supabase client not initialized. Call initSupabase first.''\<rparr>
   \<and> fst (isUserOptedOut env0 7 init_failed) \<noteq> Inr False"
  by (simp add: eval_defs Let_def)

text \<open>
  C4, amended. Once \<open>initSupabase\<close> has installed the client, \<open>isUserOptedOut\<close> never throws
  and answers \<open>true\<close> only when the request went through and found the sender's row:
  whatever goes wrong with the request (an error object with any code, or a rejected call)
  the answer is \<open>false\<close>; a sender without a row gets \<open>false\<close> too, and a request that went
  through writes nothing to the log. While no client is installed, the function throws the
  error of \<open>getSupabaseClient\<close> and does nothing else.
\<close>

theorem isUserOptedOut_fails_open_once_initialized:
  "(supabaseClient s \<noteq> None \<longrightarrow>
      fst (isUserOptedOut E uid s)
        = Inr (e_store_fault E (length (trace s)) = NoFault
               \<and> length (filter (\<lambda>u. oo_user_id u = uid) (opt_out_users s)) = 1)
      \<and> (e_store_fault E (length (trace s)) = NoFault \<longrightarrow>
           console (snd (isUserOptedOut E uid s)) = console s))
   \<and> (supabaseClient s = None \<longrightarrow>
      (\<exists>x. getSupabaseClient s = Inl x \<and> isUserOptedOut E uid s = (Inl x, s)))"
  by (auto simp: isUserOptedOut_def getSupabaseClient_def select_opt_out_single_def
      record_call_def failure_def Let_def
      split: fault.splits list.splits)

theorem isUserOptedOut_fails_open_once_initialized_witness:
  "supabaseClient ready \<noteq> None
   \<and> e_store_fault env0 (length (trace ready)) = NoFault
   \<and> fst (isUserOptedOut env0 7 ready) = Inr False
   \<and> console (snd (isUserOptedOut env0 7 ready)) = console ready
   \<and> fst (isUserOptedOut env0 7 opted_out_7) = Inr True
   \<and> fst (isUserOptedOut rejecting 7 opted_out_7) = Inr False
   \<and> supabaseClient init_failed = None
   \<and> snd (isUserOptedOut env0 7 init_failed) = init_failed"
proof -
  have c: "supabaseClient ready \<noteq> None"
    by (simp add: eval_defs Let_def)
  have c': "supabaseClient opted_out_7 \<noteq> None"
    by (simp add: eval_defs Let_def)
  have u: "supabaseClient init_failed = None"
    by (simp add: eval_defs Let_def)
  have f: "e_store_fault env0 n = NoFault" for n
    by (simp add: env0_def)
  have r: "e_store_fault rejecting n \<noteq> NoFault" for n
    by (simp add: rejecting_def)
  have e: "opt_out_users ready = []"
    by (simp add: eval_defs Let_def)
  have e': "length (filter (\<lambda>u. oo_user_id u = 7) (opt_out_users opted_out_7)) = 1"
    by (simp add: eval_defs Let_def)
  show ?thesis
    using c c' u f e e' r
      isUserOptedOut_fails_open_once_initialized [of ready env0 7]
      isUserOptedOut_fails_open_once_initialized [of opted_out_7 env0 7]
      isUserOptedOut_fails_open_once_initialized [of opted_out_7 rejecting 7]
      isUserOptedOut_fails_open_once_initialized [of init_failed env0 7]
    by auto
qed

text \<open>
  C2, as the claim states it: a second \<open>addUserOptOut\<close> for the same sender would return
  \<open>true\<close>. The first call for sender 7 returns \<open>true\<close>; the second returns \<open>false\<close>.
\<close>

theorem addUserOptOut_second_call_counterexample:
  "fst (addUserOptOut env0 7 ready) = Inr True
   \<and> fst (addUserOptOut env0 7 (snd (addUserOptOut env0 7 ready))) = Inr False"
  by (simp add: eval_defs Let_def)

text \<open>
  C2, amended. For every sender, once the client is initialised, \<open>addUserOptOut\<close> throws
  nothing: it returns \<open>true\<close> or \<open>false\<close>. When the sender already has an entry it returns
  \<open>false\<close>, leaves the opt-out table as it was, and writes one line at level \<open>ERROR\<close> to the
  log: \<open>Error adding user to opt-out list:\<close> when the store answers, which for a request that
  reaches the table is the refusal of the second row by the unique key, and
  \<open>Unexpected error during opt-out:\<close> when the call rejects. So a duplicate-key error never
  reaches the caller as an exception; it reaches the caller as \<open>false\<close>. The one thing the
  function ever throws is the error of \<open>getSupabaseClient\<close>, while no client is installed.
\<close>

theorem addUserOptOut_existing_entry:
  "(supabaseClient s \<noteq> None \<longrightarrow>
      (\<exists>b. fst (addUserOptOut E uid s) = Inr b)
      \<and> (list_ex (\<lambda>u. oo_user_id u = uid) (opt_out_users s) \<longrightarrow>
           fst (addUserOptOut E uid s) = Inr False
           \<and> opt_out_users (snd (addUserOptOut E uid s)) = opt_out_users s
           \<and> console (snd (addUserOptOut E uid s))
               = console s
                 @ [(ERROR, case e_store_fault E (length (trace s)) of
                              Rejects x \<Rightarrow> ''Unexpected error during opt-out:''
                            | Refuses err \<Rightarrow> ''Error adding user to opt-out list:''
                            | NoFault \<Rightarrow> ''Error adding user to opt-out list:'')]))
   \<and> (supabaseClient s = None \<longrightarrow>
      (\<exists>x. getSupabaseClient s = Inl x \<and> addUserOptOut E uid s = (Inl x, s)))"
  by (auto simp: addUserOptOut_def getSupabaseClient_def insert_opt_out_def
      record_call_def failure_def Let_def logger_error_console split: fault.splits)

theorem addUserOptOut_existing_entry_witness:
  "supabaseClient opted_out_7 \<noteq> None
   \<and> list_ex (\<lambda>u. oo_user_id u = 7) (opt_out_users opted_out_7)
   \<and> fst (addUserOptOut env0 7 opted_out_7) = Inr False
   \<and> opt_out_users (snd (addUserOptOut env0 7 opted_out_7)) = opt_out_users opted_out_7
   \<and> console (snd (addUserOptOut env0 7 opted_out_7))
       = console opted_out_7 @ [(ERROR, ''Error adding user to opt-out list:'')]
   \<and> length (opt_out_users opted_out_7) = 1
   \<and> supabaseClient init_failed = None
   \<and> snd (addUserOptOut env0 7 init_failed) = init_failed"
proof -
  have c: "supabaseClient opted_out_7 \<noteq> None"
    by (simp add: eval_defs Let_def)
  have m: "list_ex (\<lambda>u. oo_user_id u = 7) (opt_out_users opted_out_7)"
    and n: "length (opt_out_users opted_out_7) = 1"
    by (simp_all add: eval_defs Let_def)
  have u: "supabaseClient init_failed = None"
    by (simp add: eval_defs Let_def)
  have f: "e_store_fault env0 k = NoFault" for k
    by (simp add: env0_def)
  show ?thesis
    using c m n u f addUserOptOut_existing_entry [of opted_out_7 env0 7]
      addUserOptOut_existing_entry [of init_failed env0 7]
    by auto
qed

text \<open>
  C3. \<open>clearUserMessages\<close> sends its delete without a count option, so the response carries
  no count and \<open>count || 0\<close> is \<open>0\<close>. With two of three stored messages belonging to sender
  3, the call deletes both (the message count goes from 3 to 1) and returns 0, not 2.
\<close>

theorem clearUserMessages_returns_zero:
  "fst (getMessageCount env0 three_rows) = Inr 3
   \<and> length (filter (\<lambda>r. user_id r = 3) (conversations three_rows)) = 2
   \<and> fst (clearUserMessages env0 3 three_rows) = Inr 0
   \<and> filter (\<lambda>r. user_id r = 3) (conversations (snd (clearUserMessages env0 3 three_rows))) = []
   \<and> fst (getMessageCount env0 (snd (clearUserMessages env0 3 three_rows))) = Inr 1"
  by (simp add: eval_defs Let_def)

text \<open>The same for every sender, table and fault: with the client initialised the call
  returns 0. The rows of the sender are deleted when the request goes through.\<close>

lemma clearUserMessages_always_zero:
  "supabaseClient s = Some c \<Longrightarrow> fst (clearUserMessages E uid s) = Inr 0"
  by (auto simp: clearUserMessages_def getSupabaseClient_def delete_conversations_def
      reported_count_def count_or_0_def failure_def Let_def split: fault.splits)

lemma clearUserMessages_deletes:
  "supabaseClient s = Some c \<Longrightarrow> e_store_fault E (length (trace s)) = NoFault \<Longrightarrow>
     conversations (snd (clearUserMessages E uid s))
       = filter (\<lambda>r. user_id r \<noteq> uid) (conversations s)"
  by (simp add: clearUserMessages_def getSupabaseClient_def delete_conversations_def
      record_call_def Let_def)

section \<open>The ingestion handlers\<close>

text \<open>
  C5. When the privacy lookup for the sender of an update answers \<open>true\<close>, none of the three
  ingestion handlers calls the store's insert, and the conversations table is left as it
  was.
\<close>

theorem opted_out_sender_is_not_stored:
  assumes "ctx_from ctx = Some user"
    and "fst (isUserOptedOut E (u_id user) s) = Inr True"
  shows "insert_calls (trace (bot_on_message E ctx s)) = insert_calls (trace s)
       \<and> conversations (bot_on_message E ctx s) = conversations s
       \<and> insert_calls (trace (bot_on_message_async E ctx s)) = insert_calls (trace s)
       \<and> conversations (bot_on_message_async E ctx s) = conversations s
       \<and> insert_calls (trace (webhook_on_message E ctx s)) = insert_calls (trace s)
       \<and> conversations (webhook_on_message E ctx s) = conversations s"
proof -
  define t where "t = snd (isUserOptedOut E (u_id user) s)"
  have t: "isUserOptedOut E (u_id user) s = (Inr True, t)"
    using assms(2) by (simp add: t_def prod_eq_iff)
  have k: "insert_calls (trace t) = insert_calls (trace s)" "conversations t = conversations s"
    using isUserOptedOut_keeps [of E "u_id user" s] t by simp_all
  have a: "insert_calls (trace (bot_on_message E ctx s)) = insert_calls (trace s)
       \<and> conversations (bot_on_message E ctx s) = conversations s"
    using assms(1) t k by (simp add: bot_on_message_def split: option.splits)
  define s0 where "s0 = logger_debug ''[ASYNC] Received message:'' s"
  have z0: "trace s0 = trace s" "conversations s0 = conversations s"
    by (simp_all add: s0_def)
  define t0 where "t0 = snd (isUserOptedOut E (u_id user) s0)"
  have "fst (isUserOptedOut E (u_id user) s0) = Inr True"
    using assms(2) by (simp add: s0_def isUserOptedOut_logger)
  then have t0: "isUserOptedOut E (u_id user) s0 = (Inr True, t0)"
    by (simp add: t0_def prod_eq_iff)
  have k0: "insert_calls (trace t0) = insert_calls (trace s)" "conversations t0 = conversations s"
    using isUserOptedOut_keeps [of E "u_id user" s0] t0 by (simp_all add: s0_def)
  have b: "insert_calls (trace (bot_on_message_async E ctx s)) = insert_calls (trace s)
       \<and> conversations (bot_on_message_async E ctx s) = conversations s"
    using assms(1) t0 k0 z0
    by (simp add: bot_on_message_async_def Let_def s0_def [symmetric] split: option.splits)
  define s1 where "s1 = logger_debug ''[ASYNC] Received message:''
                 (logger_debug ''[ASYNC] Ingestion handler triggered for message:'' s)"
  have z1: "trace s1 = trace s" "conversations s1 = conversations s"
    by (simp_all add: s1_def)
  define t1 where "t1 = snd (isUserOptedOut E (u_id user) s1)"
  have "fst (isUserOptedOut E (u_id user) s1) = Inr True"
    using assms(2) by (simp add: s1_def isUserOptedOut_logger)
  then have t1: "isUserOptedOut E (u_id user) s1 = (Inr True, t1)"
    by (simp add: t1_def prod_eq_iff)
  have k1: "insert_calls (trace t1) = insert_calls (trace s)" "conversations t1 = conversations s"
    using isUserOptedOut_keeps [of E "u_id user" s1] t1 by (simp_all add: s1_def)
  have c: "insert_calls (trace (webhook_on_message E ctx s)) = insert_calls (trace s)
       \<and> conversations (webhook_on_message E ctx s) = conversations s"
    using assms(1) t1 k1 z1
    by (simp add: webhook_on_message_def Let_def s1_def [symmetric] split: option.splits)
  from a b c show ?thesis by simp
qed

theorem opted_out_sender_is_not_stored_witness:
  "ctx_from (example_update 13 7)
     = Some \<lparr>u_id = 7, username = None, first_name = ''Ada'', last_name = None\<rparr>
   \<and> fst (isUserOptedOut env0 7 opted_out_7) = Inr True
   \<and> insert_calls (trace (bot_on_message env0 (example_update 13 7) opted_out_7))
       = insert_calls (trace opted_out_7)
   \<and> conversations (bot_on_message_async env0 (example_update 13 7) opted_out_7)
       = conversations opted_out_7
   \<and> length (conversations (webhook_on_message env0 (example_update 13 7) opted_out_7)) = 3
   \<and> length (conversations (webhook_on_message env0 (example_update 13 8) opted_out_7)) = 4"
proof -
  have f: "ctx_from (example_update 13 7)
      = Some \<lparr>u_id = 7, username = None, first_name = ''Ada'', last_name = None\<rparr>"
    by (simp add: example_update_def)
  have o: "fst (isUserOptedOut env0
                 (u_id \<lparr>u_id = 7, username = None, first_name = ''Ada'', last_name = None\<rparr>)
                 opted_out_7) = Inr True"
    by (simp add: eval_defs Let_def)
  have n: "length (conversations opted_out_7) = 3"
    by (simp add: eval_defs Let_def)
  have m: "length (conversations (webhook_on_message env0 (example_update 13 8) opted_out_7)) = 4"
    by (simp add: eval_defs Let_def webhook_on_message_def
        embed_and_store_webhook_def store_webhook_def message_with_text_def chatId_of_def
        areEmbeddingsAvailable_def dbRecord_def parseTelegramMessage_def)
  show ?thesis
    using f o n m opted_out_sender_is_not_stored [OF f o] by simp
qed

text \<open>What a run of the first handler hands to the store: nothing, or one record, which is
  \<open>dbRecord\<close> of the update's message and of the vector the record carries.\<close>

lemma insertMessage_trace:
  "trace (snd (insertMessage E r s))
     = (if supabaseClient s = None then trace s else trace s @ [InsertConversation r])"
  by (auto simp: insertMessage_def getSupabaseClient_def insert_conversation_def record_call_def
      Let_def split: option.splits fault.splits prod.splits sum.splits)

lemma generateEmbedding_inserts:
  "insert_calls (trace (snd (generateEmbedding E txt s))) = insert_calls (trace s)"
  by (auto simp: generateEmbedding_def generateOpenAIEmbedding_def generateGeminiEmbedding_def
      record_call_def Let_def insert_calls_append
      split: option.splits sum.splits prod.splits list.splits)

lemma dbRecord_vector: "dbRecord f tm v = Inr r \<Longrightarrow> vector r = v"
  by (auto simp: dbRecord_def split: sum.splits)

lemma embed_and_store_inserts:
  "\<exists>rs. insert_calls (trace (embed_and_store E msg txt user chatId s)) = insert_calls (trace s) @ rs
      \<and> length rs \<le> 1
      \<and> (\<forall>r \<in> set rs. dbRecord (e_toISOString E) (parseTelegramMessage msg txt user chatId) (vector r) = Inr r)"
proof -
  define tm where "tm = parseTelegramMessage msg txt user chatId"
  define emb where "emb = (if areEmbeddingsAvailable s
            then (case generateEmbedding E txt s of
                    (Inl x, s1) \<Rightarrow> (Inl x, s1)
                  | (Inr embeddingResult, s1) \<Rightarrow> (Inr (embedding embeddingResult), s1))
            else (Inr None, s))"
  have e: "insert_calls (trace (snd emb)) = insert_calls (trace s)"
    using generateEmbedding_inserts [of E "txt" s]
    by (auto simp: emb_def split: prod.splits sum.splits)
  show ?thesis
  proof (cases emb)
    case (Pair res s1)
    with e have e1: "insert_calls (trace s1) = insert_calls (trace s)" by simp
    show ?thesis
    proof (cases res)
      case (Inl x)
      with Pair e1 show ?thesis
        by (simp add: embed_and_store_def Let_def emb_def [symmetric])
    next
      case (Inr v)
      show ?thesis
      proof (cases "dbRecord (e_toISOString E) tm v")
        case (Inl x)
        with Pair Inr e1 show ?thesis
          by (simp add: embed_and_store_def Let_def emb_def [symmetric] tm_def [symmetric])
      next
        case r: (Inr r)
        have v: "vector r = v" using r by (rule dbRecord_vector)
        have t: "insert_calls (trace (snd (insertMessage E r s1)))
            = insert_calls (trace s) @ (if supabaseClient s1 = None then [] else [r])"
          by (simp add: insertMessage_trace insert_calls_append e1)
        have "insert_calls (trace (embed_and_store E msg txt user chatId s))
            = insert_calls (trace s) @ (if supabaseClient s1 = None then [] else [r])"
          using Pair Inr r t
          by (auto simp add: embed_and_store_def Let_def emb_def [symmetric] tm_def [symmetric]
              split: prod.splits sum.splits)
        with r v show ?thesis by (auto simp: tm_def)
      qed
    qed
  qed
qed


lemma bot_on_message_inserts:
  "\<exists>rs. insert_calls (trace (bot_on_message E ctx s)) = insert_calls (trace s) @ rs
      \<and> length rs \<le> 1
      \<and> (\<forall>r \<in> set rs. \<exists>msg t user chatId.
            message_with_text ctx = Some (msg, t) \<and> ctx_from ctx = Some user
            \<and> chatId_of ctx = Some chatId
            \<and> dbRecord (e_toISOString E) (parseTelegramMessage msg t user chatId) (vector r) = Inr r)"
proof -
  have none: "insert_calls (trace s') = insert_calls (trace s) \<Longrightarrow>
      \<exists>rs. insert_calls (trace s') = insert_calls (trace s) @ rs \<and> length rs \<le> 1 \<and>
        (\<forall>r \<in> set rs. \<exists>msg t user chatId.
            message_with_text ctx = Some (msg, t) \<and> ctx_from ctx = Some user
            \<and> chatId_of ctx = Some chatId
            \<and> dbRecord (e_toISOString E) (parseTelegramMessage msg t user chatId) (vector r) = Inr r)"
    for s'
    by (rule exI [of _ "[]"]) simp
  show ?thesis
  proof (cases "message_with_text ctx")
    case None
    then show ?thesis by (intro none) (simp add: bot_on_message_def)
  next
    case (Some mt)
    obtain msg t where mt: "mt = (msg, t)" by (cases mt)
    show ?thesis
    proof (cases "ctx_from ctx")
      case None
      with Some show ?thesis by (intro none) (simp add: bot_on_message_def mt)
    next
      case user: (Some user)
      define look where "look = isUserOptedOut E (u_id user) s"
      have k: "insert_calls (trace (snd look)) = insert_calls (trace s)"
        by (simp add: look_def isUserOptedOut_keeps)
      show ?thesis
      proof (cases "\<exists>chatId. fst look = Inr False \<and> chatId_of ctx = Some chatId")
        case False
        then show ?thesis
          using Some user k
          by (intro none)
            (auto simp: bot_on_message_def mt look_def [symmetric]
              split: prod.splits sum.splits option.splits)
      next
        case True
        then obtain chatId where c: "fst look = Inr False" "chatId_of ctx = Some chatId" by blast
        have run: "bot_on_message E ctx s = embed_and_store E msg t user chatId (snd look)"
          using Some user c
          by (auto simp: bot_on_message_def mt look_def [symmetric] split: prod.splits)
        from embed_and_store_inserts [of E msg t user chatId "snd look"]
        obtain rs where rs:
          "insert_calls (trace (embed_and_store E msg t user chatId (snd look)))
             = insert_calls (trace (snd look)) @ rs"
          "length rs \<le> 1"
          "\<forall>r \<in> set rs. dbRecord (e_toISOString E) (parseTelegramMessage msg t user chatId) (vector r) = Inr r"
          by blast
        show ?thesis
          using rs Some user c k unfolding run mt
          by (intro exI [of _ rs]) auto
      qed
    qed
  qed
qed

text \<open>
  C9. The Record Builder is a function of the message and the vector alone. Take two runs
  of the handler on the same update, in any two states and any two environments (stores,
  faults, clocks, backends) that share \<open>Date.prototype.toISOString\<close>: if both reach the
  store and the two records carry the same vector, the two records are equal. The builder
  \<open>dbRecord\<close> takes no state and returns none, so it has no effect to speak of.
\<close>

theorem dbRecord_depends_on_message_and_vector:
  assumes "insert_calls (trace (bot_on_message E1 ctx s1)) = insert_calls (trace s1) @ [r1]"
    and "insert_calls (trace (bot_on_message E2 ctx s2)) = insert_calls (trace s2) @ [r2]"
    and "e_toISOString E1 = e_toISOString E2"
    and "vector r1 = vector r2"
  shows "r1 = r2"
proof -
  from bot_on_message_inserts [of E1 ctx s1] assms(1)
  obtain msg t user chatId where a:
    "message_with_text ctx = Some (msg, t)" "ctx_from ctx = Some user" "chatId_of ctx = Some chatId"
    "dbRecord (e_toISOString E1) (parseTelegramMessage msg t user chatId) (vector r1) = Inr r1"
    by auto
  from bot_on_message_inserts [of E2 ctx s2] assms(2)
  obtain msg' t' user' chatId' where b:
    "message_with_text ctx = Some (msg', t')" "ctx_from ctx = Some user'" "chatId_of ctx = Some chatId'"
    "dbRecord (e_toISOString E2) (parseTelegramMessage msg' t' user' chatId') (vector r2) = Inr r2"
    by auto
  from a b assms(3,4) show ?thesis by simp
qed

theorem dbRecord_depends_on_message_and_vector_witness:
  "insert_calls (trace (bot_on_message env0 (example_update 555 9) ready))
     = insert_calls (trace ready) @ [example_record 555 9]
   \<and> insert_calls (trace (bot_on_message rejecting (example_update 555 9) three_rows))
     = insert_calls (trace three_rows) @ [example_record 555 9]
   \<and> e_toISOString env0 = e_toISOString rejecting
   \<and> vector (example_record 555 9) = vector (example_record 555 9)
   \<and> example_record 555 9 = example_record 555 9"
proof -
  have a: "insert_calls (trace (bot_on_message env0 (example_update 555 9) ready))
      = insert_calls (trace ready) @ [example_record 555 9]"
    by (simp add: eval_defs Let_def bot_on_message_def embed_and_store_def
        message_with_text_def chatId_of_def areEmbeddingsAvailable_def dbRecord_def
        parseTelegramMessage_def)
  have b: "insert_calls (trace (bot_on_message rejecting (example_update 555 9) three_rows))
      = insert_calls (trace three_rows) @ [example_record 555 9]"
    by (simp add: eval_defs Let_def bot_on_message_def embed_and_store_def
        message_with_text_def chatId_of_def areEmbeddingsAvailable_def dbRecord_def
        parseTelegramMessage_def)
  have c: "e_toISOString env0 = e_toISOString rejecting"
    by (simp add: rejecting_def)
  show ?thesis
    using a b c dbRecord_depends_on_message_and_vector [OF a b c refl] by simp
qed

text \<open>
  C1. The same update (message id 555) delivered twice to the handler of \<open>api/webhook.ts\<close>.
  After the second delivery the table still holds one row with that id and nothing was
  thrown; but the second delivery is logged twice at level \<open>ERROR\<close>, by \<open>insertMessage\<close> and
  by the handler, and the \<open>WARN\<close> line for a duplicate is not written.
\<close>

theorem duplicate_delivery_is_logged_as_error:
  "map message_id (conversations delivered_once) = [555]
   \<and> map message_id (conversations delivered_twice) = [555]
   \<and> drop (length (console delivered_once)) (console delivered_twice)
     = [(DEBUG, ''[ASYNC] Ingestion handler triggered for message:''),
        (DEBUG, ''[ASYNC] Received message:''),
        (DEBUG, ''[ASYNC] User optedOut:''),
        (DEBUG, ''[ASYNC] Parsed TelegramMessage:''),
        (DEBUG, ''[ASYNC] Prepared dbRecord:''),
        (INFO, ''[ASYNC] Insert attempt:''),
        (DEBUG, ''[ASYNC] Attempting insertMessage with:''),
        (ERROR, ''Error inserting message into conversations:''),
        (DEBUG, ''[ASYNC] insertMessage result:''),
        (ERROR, ''[ASYNC] insertMessage failed for dbRecord:'')]"
  by (simp add: eval_defs Let_def webhook_on_message_def
      embed_and_store_webhook_def store_webhook_def message_with_text_def chatId_of_def
      areEmbeddingsAvailable_def dbRecord_def parseTelegramMessage_def)

text \<open>Why the \<open>WARN\<close> line is out of reach: with the client initialised \<open>insertMessage\<close>
  returns and never throws, so the \<open>catch\<close> around it in \<open>api/webhook.ts\<close> is not entered,
  and the \<open>try\<close> with its \<open>catch\<close> writes no line at level \<open>WARN\<close>, whatever the record and
  whatever the store does.\<close>

lemma insertMessage_never_throws:
  "supabaseClient s = Some c \<Longrightarrow> \<exists>r. fst (insertMessage E rec s) = Inr r"
  by (auto simp: insertMessage_def getSupabaseClient_def split: prod.splits sum.splits)

lemma insertMessage_never_warns:
  "filter (\<lambda>e. fst e = WARN) (console (snd (insertMessage E rec s)))
     = filter (\<lambda>e. fst e = WARN) (console s)"
  by (auto simp: insertMessage_def getSupabaseClient_def insert_conversation_def
      record_call_def logger_log_def Let_def
      split: prod.splits sum.splits option.splits fault.splits)

lemma store_webhook_never_warns:
  assumes "supabaseClient s = Some c"
  shows "filter (\<lambda>e. fst e = WARN) (console (store_webhook E rec s))
     = filter (\<lambda>e. fst e = WARN) (console s)"
proof -
  from insertMessage_never_throws [OF assms, of E rec]
  obtain r where r: "fst (insertMessage E rec s) = Inr r" by blast
  define t where "t = snd (insertMessage E rec s)"
  have i: "insertMessage E rec s = (Inr r, t)"
    using r by (simp add: t_def prod_eq_iff)
  have w: "filter (\<lambda>e. fst e = WARN) (console t) = filter (\<lambda>e. fst e = WARN) (console s)"
    unfolding t_def by (rule insertMessage_never_warns)
  show ?thesis
    using w by (simp add: store_webhook_def i Let_def logger_log_def)
qed

section \<open>The provider registry\<close>

text \<open>
  C6. \<open>initEmbeddings\<close> never throws. If the OpenAI client can be constructed, OpenAI becomes
  the active provider and no Gemini client is constructed. If it cannot (no key, or the
  construction throws) and the Gemini client can, Gemini becomes the active provider. If
  neither can, no provider is active.
\<close>

theorem initEmbeddings_priority:
  "fst (initEmbeddings E openaiKey geminiKey s) = Inr ()
   \<and> (constructs_OpenAI E openaiKey = Some a \<longrightarrow>
        embeddingsAvailable (snd (initEmbeddings E openaiKey geminiKey s))
        \<and> embeddingsProvider (snd (initEmbeddings E openaiKey geminiKey s)) = Some openai
        \<and> openaiClient (snd (initEmbeddings E openaiKey geminiKey s)) = Some a
        \<and> filter is_Gemini_construction (trace (snd (initEmbeddings E openaiKey geminiKey s)))
            = filter is_Gemini_construction (trace s))
   \<and> (constructs_OpenAI E openaiKey = None \<and> constructs_Gemini E geminiKey = Some b \<longrightarrow>
        embeddingsAvailable (snd (initEmbeddings E openaiKey geminiKey s))
        \<and> embeddingsProvider (snd (initEmbeddings E openaiKey geminiKey s)) = Some gemini
        \<and> geminiClient (snd (initEmbeddings E openaiKey geminiKey s)) = Some b)
   \<and> (constructs_OpenAI E openaiKey = None \<and> constructs_Gemini E geminiKey = None \<longrightarrow>
        \<not> embeddingsAvailable (snd (initEmbeddings E openaiKey geminiKey s))
        \<and> embeddingsProvider (snd (initEmbeddings E openaiKey geminiKey s)) = None)"
  by (auto simp: initEmbeddings_def try_OpenAI_def try_Gemini_def constructs_OpenAI_def
      constructs_Gemini_def record_call_def Let_def
      split: option.splits sum.splits prod.splits bool.splits)


theorem initEmbeddings_priority_witness:
  "constructs_OpenAI env0 (Some ''sk-a'') = Some (OpenAIClient ''sk-a'')
   \<and> embeddingsProvider (snd (initEmbeddings env0 (Some ''sk-a'') (Some ''g-b'') ready)) = Some openai
   \<and> trace (snd (initEmbeddings env0 (Some ''sk-a'') (Some ''g-b'') ready)) = [CreateClient ''https://db.example'' ''key'', NewOpenAI ''sk-a'']
   \<and> constructs_OpenAI env0 None = None
   \<and> constructs_Gemini env0 (Some ''g-b'') = Some (GeminiClient ''g-b'')
   \<and> embeddingsProvider (snd (initEmbeddings env0 None (Some ''g-b'') ready)) = Some gemini
   \<and> constructs_OpenAI no_provider (Some ''sk-a'') = None
   \<and> constructs_Gemini no_provider (Some ''g-b'') = None
   \<and> \<not> embeddingsAvailable (snd (initEmbeddings no_provider (Some ''sk-a'') (Some ''g-b'') ready))
   \<and> fst (initEmbeddings no_provider (Some ''sk-a'') (Some ''g-b'') ready) = Inr ()"
proof -
  have a: "constructs_OpenAI env0 (Some ''sk-a'') = Some (OpenAIClient ''sk-a'')"
    and b: "constructs_OpenAI env0 None = None"
    and c: "constructs_Gemini env0 (Some ''g-b'') = Some (GeminiClient ''g-b'')"
    and d: "constructs_OpenAI no_provider (Some ''sk-a'') = None"
    and e: "constructs_Gemini no_provider (Some ''g-b'') = None"
    by (simp_all add: constructs_OpenAI_def constructs_Gemini_def truthy_def eval_defs)
  have t: "trace (snd (initEmbeddings env0 (Some ''sk-a'') (Some ''g-b'') ready)) = [CreateClient ''https://db.example'' ''key'', NewOpenAI ''sk-a'']"
    by (simp add: initEmbeddings_def try_OpenAI_def truthy_def eval_defs Let_def)
  show ?thesis
    using a b c d e t
      initEmbeddings_priority [of env0 "Some ''sk-a''" "Some ''g-b''" ready "OpenAIClient ''sk-a''"]
      initEmbeddings_priority [of env0 None "Some ''g-b''" ready _ "GeminiClient ''g-b''"]
      initEmbeddings_priority [of no_provider "Some ''sk-a''" "Some ''g-b''" ready]
    by simp
qed

text \<open>
  C7. \<open>generateEmbedding\<close> always returns a result for its text and never throws. With no
  provider active it returns the absent embedding and leaves the state as it is, so no
  backend call is made. When the call of the active backend fails, the embedding is absent.
\<close>

theorem generateEmbedding_never_throws:
  "(\<exists>v. fst (generateEmbedding E txt s) = Inr \<lparr>er_text = txt, embedding = v\<rparr>)
   \<and> (\<not> embeddingsAvailable s \<longrightarrow>
        generateEmbedding E txt s = (Inr \<lparr>er_text = txt, embedding = None\<rparr>, s))
   \<and> (backend_fails E txt s \<longrightarrow>
        fst (generateEmbedding E txt s) = Inr \<lparr>er_text = txt, embedding = None\<rparr>)"
  by (auto simp: generateEmbedding_def generateOpenAIEmbedding_def generateGeminiEmbedding_def
      backend_fails_def Let_def
      split: option.splits sum.splits list.splits provider.splits)

theorem generateEmbedding_never_throws_witness:
  "\<not> embeddingsAvailable ready
   \<and> generateEmbedding env0 ''hello'' ready = (Inr \<lparr>er_text = ''hello'', embedding = None\<rparr>, ready)
   \<and> backend_fails flaky ''hello'' with_openai
   \<and> fst (generateEmbedding flaky ''hello'' with_openai) = Inr \<lparr>er_text = ''hello'', embedding = None\<rparr>
   \<and> backend_fails flaky ''b'' with_gemini
   \<and> fst (generateEmbedding flaky ''b'' with_gemini) = Inr \<lparr>er_text = ''b'', embedding = None\<rparr>
   \<and> fst (generateEmbedding env0 ''hello'' with_openai)
       = Inr \<lparr>er_text = ''hello'', embedding = Some [1, 2]\<rparr>"
proof -
  have a: "\<not> embeddingsAvailable ready"
    by (simp add: eval_defs)
  have b: "backend_fails flaky ''hello'' with_openai"
    and c: "backend_fails flaky ''b'' with_gemini"
    by (simp_all add: backend_fails_def initEmbeddings_def try_OpenAI_def try_Gemini_def
        truthy_def eval_defs Let_def)
  have d: "fst (generateEmbedding env0 ''hello'' with_openai)
      = Inr \<lparr>er_text = ''hello'', embedding = Some [1, 2]\<rparr>"
    by (simp add: generateEmbedding_def generateOpenAIEmbedding_def initEmbeddings_def
        try_OpenAI_def truthy_def eval_defs Let_def)
  show ?thesis
    using a b c d
      generateEmbedding_never_throws [of env0 "''hello''" ready]
      generateEmbedding_never_throws [of flaky "''hello''" with_openai]
      generateEmbedding_never_throws [of flaky "''b''" with_gemini]
    by simp
qed

text \<open>Entry by entry, the batch functions of the two providers.\<close>

lemma map_indexed_nth:
  "map_indexed f texts = map (\<lambda>i. \<lparr>er_text = texts ! i, embedding = f i\<rparr>) [0 ..< length texts]"
  by (rule nth_equalityI) (simp_all add: map_indexed_def)

lemma all_null_nth:
  "all_null texts = map (\<lambda>i. \<lparr>er_text = texts ! i, embedding = None\<rparr>) [0 ..< length texts]"
  by (rule nth_equalityI) (simp_all add: all_null_def)

lemma embedContent_each_Cons:
  "fst (embedContent_each E (t # ts) s)
     = item_result E (length (trace s)) t
       # fst (embedContent_each E ts
                (snd (case e_embedContent E (length (trace s)) t of
                        Inl x \<Rightarrow> (None, logger_debug ''Error embedding text'' (record_call (EmbedContent t) s))
                      | Inr None \<Rightarrow> (None, logger_debug ''Error embedding text'' (record_call (EmbedContent t) s))
                      | Inr (Some values) \<Rightarrow> (values, record_call (EmbedContent t) s))))"
  by (simp add: Let_def split_def item_result_def split: sum.splits option.splits)

lemma embedContent_item_trace:
  "trace (snd (case e_embedContent E n t of
                 Inl x \<Rightarrow> (None, logger_debug m (record_call (EmbedContent t) s))
               | Inr None \<Rightarrow> (None, logger_debug m (record_call (EmbedContent t) s))
               | Inr (Some values) \<Rightarrow> (values, record_call (EmbedContent t) s)))
     = trace s @ [EmbedContent t]"
  by (simp add: record_call_def split: sum.splits option.splits)

lemma embedContent_each_length:
  "length (fst (embedContent_each E ts s)) = length ts"
proof (induction ts arbitrary: s)
  case Nil
  show ?case by simp
next
  case (Cons t ts)
  show ?case
    unfolding embedContent_each_Cons by (simp add: Cons.IH)
qed

lemma embedContent_each_nth:
  "i < length ts \<Longrightarrow>
     fst (embedContent_each E ts s) ! i = item_result E (length (trace s) + i) (ts ! i)"
proof (induction ts arbitrary: s i)
  case Nil
  then show ?case by simp
next
  case (Cons t ts)
  show ?case
  proof (cases i)
    case 0
    then show ?thesis by (simp only: embedContent_each_Cons) simp
  next
    case (Suc j)
    with Cons.prems have j: "j < length ts" by simp
    show ?thesis
      unfolding Suc embedContent_each_Cons
      by (simp add: Cons.IH [OF j] embedContent_item_trace)
  qed
qed

lemma generateBatchOpenAIEmbeddings_entries:
  "fst (generateBatchOpenAIEmbeddings E texts s)
     = Inr (map (\<lambda>i. \<lparr>er_text = texts ! i,
                      embedding =
                        (case openaiClient s of
                           None \<Rightarrow> None
                         | Some c \<Rightarrow>
                             (case e_embeddings_create E (length (trace s)) (Batch texts) of
                                Inr (Some ds) \<Rightarrow> at_index ds i
                              | _ \<Rightarrow> None))\<rparr>)
              [0 ..< length texts])"
  by (simp add: generateBatchOpenAIEmbeddings_def all_null_nth map_indexed_nth Let_def
      split: option.splits sum.splits)

lemma generateBatchGeminiEmbeddings_entries:
  "fst (generateBatchGeminiEmbeddings E texts s)
     = Inr (map (\<lambda>i. \<lparr>er_text = texts ! i,
                      embedding =
                        (case geminiClient s of
                           None \<Rightarrow> None
                         | Some c \<Rightarrow>
                             (case e_getGenerativeModel E c of
                                Inl x \<Rightarrow> None
                              | Inr m \<Rightarrow> item_result E (length (trace s) + i) (texts ! i)))\<rparr>)
              [0 ..< length texts])"
proof -
  have g: "map_indexed (at_index (fst (embedContent_each E texts s))) texts
      = map (\<lambda>i. \<lparr>er_text = texts ! i,
                   embedding = item_result E (length (trace s) + i) (texts ! i)\<rparr>)
          [0 ..< length texts]"
    by (rule nth_equalityI)
      (simp_all add: map_indexed_def at_index_def embedContent_each_length embedContent_each_nth)
  show ?thesis
    by (simp add: generateBatchGeminiEmbeddings_def all_null_nth g split_def
        split: option.splits sum.splits)
qed

text \<open>
  C8. \<open>generateBatchEmbeddings\<close> never throws, and its result has one entry per input text,
  in the order of the texts: entry \<open>i\<close> carries text \<open>i\<close> and the embedding the spec expects
  for it (\<open>expected_batch_embedding\<close>): absent for every entry when the call for the whole
  batch fails, and with Gemini absent for exactly the texts whose own call fails.
\<close>

theorem generateBatchEmbeddings_positional:
  "fst (generateBatchEmbeddings E texts s)
     = Inr (map (\<lambda>i. \<lparr>er_text = texts ! i, embedding = expected_batch_embedding E texts s i\<rparr>)
              [0 ..< length texts])"
proof (cases "embeddingsAvailable s")
  case False
  then show ?thesis
    by (simp add: generateBatchEmbeddings_def expected_batch_embedding_def all_null_nth)
next
  case True
  show ?thesis
  proof (cases "embeddingsProvider s")
    case None
    with True show ?thesis
      by (simp add: generateBatchEmbeddings_def expected_batch_embedding_def all_null_nth)
  next
    case (Some p)
    with True show ?thesis
      by (cases p)
        (simp_all add: generateBatchEmbeddings_def expected_batch_embedding_def
          generateBatchOpenAIEmbeddings_entries generateBatchGeminiEmbeddings_entries)
  qed
qed

text \<open>Three texts with Gemini, the call for the second failing; and with OpenAI, the call
  for the batch failing.\<close>

theorem generateBatchEmbeddings_positional_witness:
  "fst (generateBatchEmbeddings flaky [''a'', ''b'', ''c''] with_gemini)
     = Inr [\<lparr>er_text = ''a'', embedding = Some [1, 2]\<rparr>,
            \<lparr>er_text = ''b'', embedding = None\<rparr>,
            \<lparr>er_text = ''c'', embedding = Some [1, 2]\<rparr>]
   \<and> fst (generateBatchEmbeddings flaky [''a'', ''b'', ''c''] with_openai)
     = Inr [\<lparr>er_text = ''a'', embedding = None\<rparr>,
            \<lparr>er_text = ''b'', embedding = None\<rparr>,
            \<lparr>er_text = ''c'', embedding = None\<rparr>]"
proof -
  have u: "[0 ..< length [''a'', ''b'', ''c'']] = [0, Suc 0, Suc (Suc 0)]"
    by (simp add: upt_rec)
  have g: "embeddingsAvailable with_gemini" "embeddingsProvider with_gemini = Some gemini"
    "geminiClient with_gemini = Some (GeminiClient ''g-b'')"
    and o: "embeddingsAvailable with_openai" "embeddingsProvider with_openai = Some openai"
    "openaiClient with_openai = Some (OpenAIClient ''sk-a'')"
    by (simp_all add: initEmbeddings_def try_OpenAI_def try_Gemini_def truthy_def eval_defs Let_def)
  show ?thesis
    using generateBatchEmbeddings_positional [of flaky "[''a'', ''b'', ''c'']" with_gemini]
      generateBatchEmbeddings_positional [of flaky "[''a'', ''b'', ''c'']" with_openai]
    unfolding u
    by (simp add: expected_batch_embedding_def item_result_def g o flaky_def env0_def)
qed

end
